theory Spec2Isabelle
  imports Main "HOL-Library.Char_ord" "HOL-Library.List_Lexorder" "HOL-Library.Multiset"
begin

section \<open>Strings and numbers of the deploy command\<close>

text \<open>
  The deploy path of \<^verbatim>\<open>cli.js\<close> (\<^verbatim>\<open>deployCommand\<close> with its helpers \<^verbatim>\<open>run\<close> and
  \<^verbatim>\<open>runSSH\<close>) is embedded here. A JavaScript string is modelled as a \<^typ>\<open>string\<close>, a
  list of 8-bit characters; on such strings the order of JavaScript's default
  \<^verbatim>\<open>Array.prototype.sort\<close> (code unit by code unit, a proper prefix first) is the
  lexicographic order of \<^typ>\<open>char list\<close>, which is also the byte-wise order.
  The port counter is a JavaScript number that starts at 3000 and is only ever
  incremented; it is modelled as a \<^typ>\<open>nat\<close> and printed in decimal, as template
  interpolation does for an integral number.
\<close>

abbreviation backslash :: string where
  "backslash \<equiv> [CHR 0x5C]"

definition digitChar :: "nat \<Rightarrow> char" where
  "digitChar d = char_of (48 + d)"

function numToString :: "nat \<Rightarrow> string" where
  "numToString n =
     (if n < 10 then [digitChar n] else numToString (n div 10) @ [digitChar (n mod 10)])"
  by pat_completeness auto
termination
  by (relation "measure (\<lambda>n. n)") auto

declare numToString.simps [simp del]

definition startsWith :: "string \<Rightarrow> string \<Rightarrow> bool" where
  "startsWith s p = (take (length p) s = p)"

definition pathJoin :: "string \<Rightarrow> string \<Rightarrow> string" where
  "pathJoin a b = a @ ''/'' @ b"

section \<open>Step 2: detecting apps\<close>

text \<open>
  The working directory as \<^verbatim>\<open>deployCommand\<close> reads it: the names \<^verbatim>\<open>fs.readdirSync(cwd)\<close>
  returns (in the order of the operating system), whether \<^verbatim>\<open>fs.statSync\<close> of an entry
  reports a directory, and \<^verbatim>\<open>fs.existsSync\<close> on a path below the working directory.
  The calls are taken to return; an entry is a directory or it is not.
\<close>

record fs =
  readdirSync :: "string list"
  isDirectory :: "string \<Rightarrow> bool"
  existsSync :: "string \<Rightarrow> bool"

definition systemFolders :: "string list" where
  "systemFolders = [''node_modules'', ''server-setup'', ''_root'']"

definition allApps :: "fs \<Rightarrow> string list" where
  "allApps F =
     sort (filter (\<lambda>f. isDirectory F f \<and> \<not> startsWith f ''.'' \<and> f \<notin> set systemFolders)
             (readdirSync F))"

definition dockerApps :: "fs \<Rightarrow> string list" where
  "dockerApps F =
     filter (\<lambda>app. existsSync F (pathJoin app ''docker-compose.yml'')) (allApps F)"


section \<open>Step 7: generating the nginx configuration\<close>

text \<open>
  A template literal of the source is given line by line: every line of a template ends
  with a line break. In a template literal \<^verbatim>\<open>\\$host\<close> is a backslash followed by
  \<^verbatim>\<open>$host\<close>, and \<^verbatim>\<open>${port}\<close> prints the counter in decimal.
\<close>

definition unlines :: "string list \<Rightarrow> string" where
  "unlines ls = concat (map (\<lambda>l. l @ [CHR 0x0A]) ls)"

definition nginxHeader :: "string \<Rightarrow> string" where
  \<open>nginxHeader domain =
     unlines
      [''# HTTP - ACME challenges and redirect to HTTPS'',
       ''server {'',
       ''    listen 80;'',
       ''    listen [::]:80;'',
       ''    server_name *.'' @ domain @ '' '' @ domain @ '';'',
       ''    location /.well-known/acme-challenge/ { root /var/www/acme-challenge; }'',
       ''    location / { return 301 https://'' @ backslash @ ''$host'' @ backslash @ ''$request_uri; }'',
       ''}'',
       ''# Root domain'',
       ''server {'',
       ''    listen 443 ssl http2;'',
       ''    listen [::]:443 ssl http2;'',
       ''    server_name '' @ domain @ '';'',
       ''    ssl_certificate /etc/letsencrypt/live/'' @ domain @ ''/fullchain.pem;'',
       ''    ssl_certificate_key /etc/letsencrypt/live/'' @ domain @ ''/privkey.pem;'',
       ''    ssl_protocols TLSv1.2 TLSv1.3;'',
       ''    ssl_prefer_server_ciphers off;'',
       ''    root /var/www/apps/_root;'',
       ''    index index.html;'',
       ''    location / { try_files '' @ backslash @ ''$uri '' @ backslash @ ''$uri/ =404; }'',
       ''}'']\<close>

definition dockerBlock :: "string \<Rightarrow> string \<Rightarrow> nat \<Rightarrow> string" where
  \<open>dockerBlock app domain port =
     unlines
      ['''',
       ''# Docker app - '' @ app @ '' -> port '' @ numToString port,
       ''server {'',
       ''    listen 443 ssl http2;'',
       ''    listen [::]:443 ssl http2;'',
       ''    server_name '' @ app @ ''.'' @ domain @ '';'',
       ''    ssl_certificate /etc/letsencrypt/live/'' @ app @ ''.'' @ domain @ ''/fullchain.pem;'',
       ''    ssl_certificate_key /etc/letsencrypt/live/'' @ app @ ''.'' @ domain @ ''/privkey.pem;'',
       ''    ssl_protocols TLSv1.2 TLSv1.3;'',
       ''    ssl_prefer_server_ciphers off;'',
       ''    location / {'',
       ''        proxy_pass http://127.0.0.1:'' @ numToString port @ '';'',
       ''        proxy_http_version 1.1;'',
       ''        proxy_set_header Upgrade '' @ backslash @ ''$http_upgrade;'',
       ''        proxy_set_header Connection 'upgrade';'',
       ''        proxy_set_header Host '' @ backslash @ ''$host;'',
       ''        proxy_set_header X-Real-IP '' @ backslash @ ''$remote_addr;'',
       ''        proxy_set_header X-Forwarded-For '' @ backslash @ ''$proxy_add_x_forwarded_for;'',
       ''        proxy_set_header X-Forwarded-Proto '' @ backslash @ ''$scheme;'',
       ''        proxy_cache_bypass '' @ backslash @ ''$http_upgrade;'',
       ''    }'',
       ''}'']\<close>

definition staticBlock :: "string \<Rightarrow> string \<Rightarrow> string" where
  \<open>staticBlock app domain =
     unlines
      ['''',
       ''# Static app - '' @ app,
       ''server {'',
       ''    listen 443 ssl http2;'',
       ''    listen [::]:443 ssl http2;'',
       ''    server_name '' @ app @ ''.'' @ domain @ '';'',
       ''    ssl_certificate /etc/letsencrypt/live/'' @ app @ ''.'' @ domain @ ''/fullchain.pem;'',
       ''    ssl_certificate_key /etc/letsencrypt/live/'' @ app @ ''.'' @ domain @ ''/privkey.pem;'',
       ''    ssl_protocols TLSv1.2 TLSv1.3;'',
       ''    ssl_prefer_server_ciphers off;'',
       ''    root /var/www/apps/'' @ app @ '';'',
       ''    index index.html index.htm;'',
       ''    add_header X-Frame-Options "SAMEORIGIN" always;'',
       ''    add_header X-Content-Type-Options "nosniff" always;'',
       ''    gzip on;'',
       ''    gzip_types text/plain text/css application/json application/javascript text/xml application/xml;'',
       ''    location / { try_files '' @ backslash @ ''$uri '' @ backslash @ ''$uri/ /index.html =404; }'',
       ''    location ~* '' @ backslash @ ''.(js|css|png|jpg|jpeg|gif|ico|svg|woff|woff2|ttf|eot)$ {'',
       ''        expires 30d;'',
       ''        add_header Cache-Control "public, immutable";'',
       ''    }'',
       ''}'']\<close>

text \<open>
  The loop over \<^verbatim>\<open>allApps\<close>: the pair is the text built so far and the port counter;
  \<^verbatim>\<open>dockerApps.includes(app)\<close> is membership in the list.
\<close>

fun configLoop :: "string \<Rightarrow> string list \<Rightarrow> string list \<Rightarrow> string \<times> nat \<Rightarrow> string \<times> nat" where
  "configLoop domain dApps [] (nginxConfig, port) = (nginxConfig, port)"
| "configLoop domain dApps (app # rest) (nginxConfig, port) =
     (if app \<in> set dApps
      then configLoop domain dApps rest (nginxConfig @ dockerBlock app domain port, port + 1)
      else configLoop domain dApps rest (nginxConfig @ staticBlock app domain, port))"

definition nginxConfig :: "string \<Rightarrow> string list \<Rightarrow> string list \<Rightarrow> string" where
  "nginxConfig domain apps dApps = fst (configLoop domain dApps apps (nginxHeader domain, 3000))"

section \<open>Commands, the environment and the target\<close>

text \<open>
  Every remote or local shell command of \<^verbatim>\<open>deployCommand\<close> goes through \<^verbatim>\<open>run\<close>, one
  \<^verbatim>\<open>execSync\<close> call each. A command is recorded with the values interpolated into it:
  \<^item> \<open>SyncFiles\<close>: the \<^verbatim>\<open>rsync -avz --delete\<close> of the working directory to \<^verbatim>\<open>/var/www/apps/\<close>;
  \<^item> \<open>DockerUp app port\<close>:
    \<^verbatim>\<open>cd /var/www/apps/${app} && PORT=${port} docker compose up -d --build --remove-orphans\<close>;
  \<^item> \<open>StopOrphans\<close>: the clean-up script of step 4;
  \<^item> \<open>EnsureCert app domain emailArg\<close>:
    \<^verbatim>\<open>/usr/local/bin/ensure-cert.sh ${app} ${domain} ${emailArg}\<close>;
  \<^item> \<open>FixPermissions\<close>: the \<^verbatim>\<open>chmod\<close> script of step 6;
  \<^item> \<open>UploadConfig path content\<close>: the \<^verbatim>\<open>scp\<close> of the temporary file to
    \<^verbatim>\<open>/etc/nginx/sites-available/apps\<close>;
  \<^item> \<open>ValidateAndReload\<close>:
    \<^verbatim>\<open>ln -sf /etc/nginx/sites-available/apps /etc/nginx/sites-enabled/apps && nginx -t && systemctl reload nginx\<close>.
  The SSH host (\<^verbatim>\<open>server || domain\<close>) is the same in every command of a run and is
  left out.
\<close>

datatype action =
    SyncFiles
  | DockerUp string nat
  | StopOrphans
  | EnsureCert string string string
  | FixPermissions
  | UploadConfig string string
  | ValidateAndReload

text \<open>
  What a run cannot control: the clock read by \<^verbatim>\<open>Date.now()\<close>, which commands fail
  (a non-zero exit status or a transport failure makes \<^verbatim>\<open>execSync\<close> throw), the compose
  projects of the running containers as the clean-up script lists them
  (\<^verbatim>\<open>$PROJECTS\<close>), the verdict of \<^verbatim>\<open>nginx -t\<close> on the configuration file, and whether
  \<^verbatim>\<open>systemctl reload nginx\<close> succeeds.
\<close>

record env =
  now :: nat
  fails :: "action \<Rightarrow> bool"
  runningProjects :: "string list"
  nginxTest :: "string \<Rightarrow> bool"
  reloadOk :: bool

text \<open>
  The part of the target that the commands read and write: the directories directly
  under \<^verbatim>\<open>/var/www/apps\<close>, the content of \<^verbatim>\<open>/etc/nginx/sites-available/apps\<close>, whether
  \<^verbatim>\<open>/etc/nginx/sites-enabled/apps\<close> links to it, the configuration the running nginx
  loaded at its last reload, and the compose projects that \<^verbatim>\<open>docker compose down\<close> was
  called for.
\<close>

record target =
  appDirs :: "string set"
  sitesAvailable :: string
  sitesEnabled :: bool
  loadedConfig :: string
  stopped :: "string list"

definition rsyncExcludes :: "string list" where
  "rsyncExcludes = [''.git'', ''.github'', ''node_modules'', ''.env'', ''.DS_Store'']"

text \<open>
  After a successful \<^verbatim>\<open>rsync -a --delete\<close> with these excludes, the directories under
  \<^verbatim>\<open>/var/www/apps\<close> are the local top-level directories that are not excluded, and the
  excluded ones that were there before (an excluded name is neither sent nor deleted).
\<close>

definition syncedDirs :: "fs \<Rightarrow> string set \<Rightarrow> string set" where
  "syncedDirs F old =
     {d. d \<in> set (readdirSync F) \<and> isDirectory F d \<and> d \<notin> set rsyncExcludes} \<union>
     {d. d \<in> old \<and> d \<in> set rsyncExcludes}"

text \<open>
  The loop of the clean-up script: a project is stopped when
  \<^verbatim>\<open>[ ! -d "/var/www/apps/$project" ]\<close>.
\<close>

definition orphans :: "string list \<Rightarrow> string set \<Rightarrow> string list" where
  "orphans projects dirs = filter (\<lambda>project. project \<notin> dirs) projects"

text \<open>
  One \<^verbatim>\<open>execSync\<close> call: whether it returned (\<open>True\<close>) or threw, and the target
  afterwards. A command that fails leaves the target as it was; the exception is the
  last command, whose three parts are joined by \<^verbatim>\<open>&&\<close>: the link is made, then
  \<^verbatim>\<open>nginx -t\<close> reads the configuration file, and only when it passes is nginx reloaded.
  The effects of \<^verbatim>\<open>docker compose up\<close> and of \<^verbatim>\<open>ensure-cert.sh\<close> on the target are not
  part of the state; the running projects are read from the environment at step 4.
\<close>

definition execSync :: "env \<Rightarrow> fs \<Rightarrow> action \<Rightarrow> target \<Rightarrow> bool \<times> target" where
  "execSync E F cmd T =
     (if fails E cmd then (False, T)
      else case cmd of
        SyncFiles \<Rightarrow> (True, T\<lparr>appDirs := syncedDirs F (appDirs T)\<rparr>)
      | DockerUp app port \<Rightarrow> (True, T)
      | StopOrphans \<Rightarrow>
          (True, T\<lparr>stopped := stopped T @ orphans (runningProjects E) (appDirs T)\<rparr>)
      | EnsureCert app domain emailArg \<Rightarrow> (True, T)
      | FixPermissions \<Rightarrow> (True, T)
      | UploadConfig path content \<Rightarrow> (True, T\<lparr>sitesAvailable := content\<rparr>)
      | ValidateAndReload \<Rightarrow>
          (let T1 = T\<lparr>sitesEnabled := True\<rparr>
           in if nginxTest E (sitesAvailable T1) \<and> reloadOk E
              then (True, T1\<lparr>loadedConfig := sitesAvailable T1\<rparr>)
              else (False, T1)))"

section \<open>The pipeline\<close>

text \<open>
  The state of a run: the commands passed to \<^verbatim>\<open>execSync\<close> so far and the target.
  A step returns \<open>Inr\<close> with the new state, or \<open>Inl\<close> with the state in which
  \<^verbatim>\<open>process.exit(1)\<close> was called.
\<close>

record state =
  trace :: "action list"
  target :: target

text \<open>
  \<^verbatim>\<open>run(cmd, { allowFail })\<close>: when \<^verbatim>\<open>execSync\<close> throws, the process exits with status 1
  unless \<^verbatim>\<open>allowFail\<close> is set. \<^verbatim>\<open>runSSH\<close> only wraps the command in an \<^verbatim>\<open>ssh\<close> call and
  passes the options on.
\<close>

definition run :: "env \<Rightarrow> fs \<Rightarrow> action \<Rightarrow> bool \<Rightarrow> state \<Rightarrow> state + state" where
  "run E F cmd allowFail s =
     (let (ok, T) = execSync E F cmd (target s);
          s' = s\<lparr>trace := trace s @ [cmd], target := T\<rparr>
      in if ok then Inr s' else if \<not> allowFail then Inl s' else Inr s')"

fun startLoop :: "env \<Rightarrow> fs \<Rightarrow> string list \<Rightarrow> nat \<Rightarrow> state \<Rightarrow> state + state" where
  "startLoop E F [] port s = Inr s"
| "startLoop E F (app # rest) port s =
     (case run E F (DockerUp app port) True s of
        Inl s' \<Rightarrow> Inl s'
      | Inr s' \<Rightarrow> startLoop E F rest (port + 1) s')"

fun certLoop :: "env \<Rightarrow> fs \<Rightarrow> string \<Rightarrow> string \<Rightarrow> string list \<Rightarrow> state \<Rightarrow> state + state" where
  "certLoop E F domain emailArg [] s = Inr s"
| "certLoop E F domain emailArg (app # rest) s =
     (case run E F (EnsureCert app domain emailArg) True s of
        Inl s' \<Rightarrow> Inl s'
      | Inr s' \<Rightarrow> certLoop E F domain emailArg rest s')"

definition tmpConfigPath :: "env \<Rightarrow> string" where
  "tmpConfigPath E = ''/tmp/nginx-apps-'' @ numToString (now E) @ ''.conf''"

text \<open>
  An argument of the command line is \<^verbatim>\<open>null\<close> or a string; \<^verbatim>\<open>!domain\<close> holds for
  \<^verbatim>\<open>null\<close> and for the empty string, and \<^verbatim>\<open>email || ''\<close> replaces both by the empty
  string.
\<close>

definition falsy :: "string option \<Rightarrow> bool" where
  "falsy a = (case a of None \<Rightarrow> True | Some v \<Rightarrow> v = [])"

definition orEmpty :: "string option \<Rightarrow> string" where
  "orEmpty a = (case a of None \<Rightarrow> [] | Some v \<Rightarrow> v)"

text \<open>
  A run starts with no command issued yet, on the target as it is. The usage error for
  a missing domain exits before any command.
\<close>

definition deployCommand :: "env \<Rightarrow> fs \<Rightarrow> string option \<Rightarrow> string option \<Rightarrow> target \<Rightarrow> state + state" where
  "deployCommand E F domainArg email T0 =
     (let s0 = \<lparr>trace = [], target = T0\<rparr> in
      if falsy domainArg then Inl s0
      else
        let domain = orEmpty domainArg; emailArg = orEmpty email in
        case run E F SyncFiles False s0 of
          Inl s \<Rightarrow> Inl s
        | Inr s1 \<Rightarrow>
        (case (if length (dockerApps F) > 0 then startLoop E F (dockerApps F) 3000 s1
               else Inr s1) of
          Inl s \<Rightarrow> Inl s
        | Inr s3 \<Rightarrow>
        (case run E F StopOrphans True s3 of
          Inl s \<Rightarrow> Inl s
        | Inr s4 \<Rightarrow>
        (case certLoop E F domain emailArg (allApps F) s4 of
          Inl s \<Rightarrow> Inl s
        | Inr s5 \<Rightarrow>
        (case run E F FixPermissions False s5 of
          Inl s \<Rightarrow> Inl s
        | Inr s6 \<Rightarrow>
        (case run E F (UploadConfig (tmpConfigPath E)
                         (nginxConfig domain (allApps F) (dockerApps F))) False s6 of
          Inl s \<Rightarrow> Inl s
        | Inr s7 \<Rightarrow> run E F ValidateAndReload False s7))))))"

section \<open>Reading a run\<close>

text \<open>The state a run ends in, whether it ran to the end or exited.\<close>

definition finalState :: "state + state \<Rightarrow> state" where
  "finalState r = (case r of Inl s \<Rightarrow> s | Inr s \<Rightarrow> s)"

text \<open>
  The state in which step 6 starts when the sync succeeded: steps 3 to 5 cannot exit
  (lemma \<open>deploy_after_certs\<close> below).
\<close>

definition afterCerts :: "env \<Rightarrow> fs \<Rightarrow> string \<Rightarrow> string \<Rightarrow> target \<Rightarrow> state" where
  "afterCerts E F domain emailArg T0 =
     \<lparr>trace = [SyncFiles] @
        map (\<lambda>(app, p). DockerUp app p)
          (zip (dockerApps F) [3000 ..< 3000 + length (dockerApps F)]) @
        [StopOrphans] @ map (\<lambda>app. EnsureCert app domain emailArg) (allApps F),
      target = T0\<lparr>appDirs := syncedDirs F (appDirs T0),
        stopped := stopped T0 @
          (if fails E StopOrphans then []
           else orphans (runningProjects E) (syncedDirs F (appDirs T0)))\<rparr>\<rparr>"

text \<open>The documents that were uploaded, in order.\<close>

definition uploads :: "action list \<Rightarrow> string list" where
  "uploads cmds =
     concat (map (\<lambda>cmd. case cmd of UploadConfig path content \<Rightarrow> [content] | _ \<Rightarrow> []) cmds)"




section \<open>Reading a document\<close>

text \<open>
  The first template holds two server blocks: the plaintext block on port 80 and the
  secured block of the root domain (lemma \<open>nginxHeader_blocks\<close> below).
\<close>

definition httpBlock :: "string \<Rightarrow> string" where
  \<open>httpBlock domain =
     unlines
      [''# HTTP - ACME challenges and redirect to HTTPS'',
       ''server {'',
       ''    listen 80;'',
       ''    listen [::]:80;'',
       ''    server_name *.'' @ domain @ '' '' @ domain @ '';'',
       ''    location /.well-known/acme-challenge/ { root /var/www/acme-challenge; }'',
       ''    location / { return 301 https://'' @ backslash @ ''$host'' @ backslash @ ''$request_uri; }'',
       ''}'']\<close>

definition rootBlock :: "string \<Rightarrow> string" where
  \<open>rootBlock domain =
     unlines
      [''# Root domain'',
       ''server {'',
       ''    listen 443 ssl http2;'',
       ''    listen [::]:443 ssl http2;'',
       ''    server_name '' @ domain @ '';'',
       ''    ssl_certificate /etc/letsencrypt/live/'' @ domain @ ''/fullchain.pem;'',
       ''    ssl_certificate_key /etc/letsencrypt/live/'' @ domain @ ''/privkey.pem;'',
       ''    ssl_protocols TLSv1.2 TLSv1.3;'',
       ''    ssl_prefer_server_ciphers off;'',
       ''    root /var/www/apps/_root;'',
       ''    index index.html;'',
       ''    location / { try_files '' @ backslash @ ''$uri '' @ backslash @ ''$uri/ =404; }'',
       ''}'']\<close>

text \<open>
  The lines of a text: \<open>cur\<close> is the line read so far; what follows the last line
  break counts as a line when it is not empty. \<open>countLine l doc\<close> is the number of
  lines of \<open>doc\<close> that are \<open>l\<close>.
\<close>

fun linesFrom :: "string \<Rightarrow> string \<Rightarrow> string list" where
  "linesFrom cur [] = (if cur = [] then [] else [cur])"
| "linesFrom cur (c # cs) =
     (if c = CHR 0x0A then cur # linesFrom [] cs else linesFrom (cur @ [c]) cs)"

definition countLine :: "string \<Rightarrow> string \<Rightarrow> nat" where
  "countLine l doc = count_list (linesFrom [] doc) l"

section \<open>The specification's words\<close>

text \<open>
  The port allocator as the specification describes it: walk the list once with a
  counter; on each containerized app, assign the counter then increment; a static app
  consumes no port and leaves the counter as it is.
\<close>

fun allocatePorts :: "(string \<Rightarrow> bool) \<Rightarrow> string list \<Rightarrow> nat \<Rightarrow> (string \<times> nat option) list" where
  "allocatePorts containerized [] counter = []"
| "allocatePorts containerized (app # rest) counter =
     (if containerized app
      then (app, Some counter) # allocatePorts containerized rest (counter + 1)
      else (app, None) # allocatePorts containerized rest counter)"

text \<open>The block of an app with its assignment, and the assignments that carry a port.\<close>

fun appBlock :: "string \<Rightarrow> string \<times> nat option \<Rightarrow> string" where
  "appBlock domain (app, Some port) = dockerBlock app domain port"
| "appBlock domain (app, None) = staticBlock app domain"






section \<open>A repository, an environment and a target to run on\<close>

text \<open>
  The repository of the README's port example, with a file, a hidden directory and two
  system folders beside the four apps.
\<close>

definition exampleRepo :: fs where
  "exampleRepo =
     \<lparr>readdirSync = [''xyz'', ''.git'', ''blog'', ''README.md'', ''myapi'', ''node_modules'',
        ''abc'', ''_root''],
      isDirectory = (\<lambda>f. f \<noteq> ''README.md''),
      existsSync = (\<lambda>p. p \<in> set [''abc/docker-compose.yml'', ''myapi/docker-compose.yml'',
        ''xyz/docker-compose.yml''])\<rparr>"

text \<open>An environment in which every command succeeds, and a target before its first deploy.\<close>

definition calmEnv :: env where
  "calmEnv =
     \<lparr>now = 1700000000000, fails = (\<lambda>cmd. False), runningProjects = [],
      nginxTest = (\<lambda>content. True), reloadOk = True\<rparr>"

definition freshTarget :: target where
  "freshTarget =
     \<lparr>appDirs = {}, sitesAvailable = ''# previous'', sitesEnabled = True,
      loadedConfig = ''# previous'', stopped = []\<rparr>"

text \<open>
  Environments in which one command fails: the \<^verbatim>\<open>chmod\<close> script of step 6, and the
  certificate of one app.
\<close>

definition permissionsFailEnv :: env where
  "permissionsFailEnv = calmEnv\<lparr>fails := (\<lambda>cmd. cmd = FixPermissions)\<rparr>"

definition certFailEnv :: env where
  "certFailEnv = calmEnv\<lparr>fails := (\<lambda>cmd. cmd = EnsureCert ''blog'' ''example.com'' [])\<rparr>"

text \<open>An environment in which \<^verbatim>\<open>nginx -t\<close> rejects every document.\<close>

definition invalidConfigEnv :: env where
  "invalidConfigEnv = calmEnv\<lparr>nginxTest := (\<lambda>content. False)\<rparr>"




section \<open>The loops\<close>

lemma configLoop_allocatePorts:
  "configLoop domain dApps apps (cfg, port) =
     (cfg @ concat (map (appBlock domain) (allocatePorts (\<lambda>app. app \<in> set dApps) apps port)),
      port + length (filter (\<lambda>app. app \<in> set dApps) apps))"
  by (induction apps arbitrary: cfg port) simp_all

lemma nginxConfig_allocatePorts:
  "nginxConfig domain apps dApps =
     nginxHeader domain @
     concat (map (appBlock domain) (allocatePorts (\<lambda>app. app \<in> set dApps) apps 3000))"
  by (simp add: nginxConfig_def configLoop_allocatePorts)

lemma run_allowFail:
  "run E F cmd True s =
     Inr (s\<lparr>trace := trace s @ [cmd], target := snd (execSync E F cmd (target s))\<rparr>)"
  by (simp add: run_def Let_def split: prod.splits)

lemma execSync_DockerUp: "snd (execSync E F (DockerUp app port) T) = T"
  by (simp add: execSync_def)

lemma execSync_EnsureCert: "snd (execSync E F (EnsureCert app domain emailArg) T) = T"
  by (simp add: execSync_def)

lemma startLoop_trace:
  "startLoop E F apps port s =
     Inr (s\<lparr>trace := trace s @
            map (\<lambda>(app, p). DockerUp app p) (zip apps [port ..< port + length apps])\<rparr>)"
proof (induction apps arbitrary: port s)
  case Nil
  show ?case by simp
next
  case (Cons app rest)
  have "[port ..< port + length (app # rest)] = port # [port + 1 ..< port + 1 + length rest]"
    by (simp add: upt_rec)
  then show ?case
    by (simp add: run_allowFail execSync_DockerUp Cons.IH)
qed

lemma certLoop_trace:
  "certLoop E F domain emailArg apps s =
     Inr (s\<lparr>trace := trace s @ map (\<lambda>app. EnsureCert app domain emailArg) apps\<rparr>)"
  by (induction apps arbitrary: s) (simp_all add: run_allowFail execSync_EnsureCert)


lemma allApps_exampleRepo: "allApps exampleRepo = [''abc'', ''blog'', ''myapi'', ''xyz'']"
  by (simp add: allApps_def exampleRepo_def startsWith_def systemFolders_def)

lemma dockerApps_exampleRepo: "dockerApps exampleRepo = [''abc'', ''myapi'', ''xyz'']"
  by (simp add: dockerApps_def allApps_exampleRepo pathJoin_def) (simp add: exampleRepo_def)

section \<open>The run, step by step\<close>

lemma startLoop_guard:
  "(if length dApps > 0 then startLoop E F dApps port s else Inr s) = startLoop E F dApps port s"
  by (cases dApps) simp_all

lemma run_fatal:
  "run E F cmd False s =
     (if fst (execSync E F cmd (target s))
      then Inr (s\<lparr>trace := trace s @ [cmd], target := snd (execSync E F cmd (target s))\<rparr>)
      else Inl (s\<lparr>trace := trace s @ [cmd], target := snd (execSync E F cmd (target s))\<rparr>))"
  by (simp add: run_def Let_def split: prod.splits)

lemma execSync_fails: "fails E cmd \<Longrightarrow> execSync E F cmd T = (False, T)"
  by (simp add: execSync_def)

lemma execSync_SyncFiles:
  "\<not> fails E SyncFiles \<Longrightarrow>
   execSync E F SyncFiles T = (True, T\<lparr>appDirs := syncedDirs F (appDirs T)\<rparr>)"
  by (simp add: execSync_def)

lemma execSync_StopOrphans:
  "snd (execSync E F StopOrphans T) =
     T\<lparr>stopped := stopped T @
        (if fails E StopOrphans then [] else orphans (runningProjects E) (appDirs T))\<rparr>"
  by (simp add: execSync_def)

lemma execSync_FixPermissions:
  "execSync E F FixPermissions T = (\<not> fails E FixPermissions, T)"
  by (simp add: execSync_def)

lemma execSync_UploadConfig:
  "execSync E F (UploadConfig path content) T =
     (if fails E (UploadConfig path content) then (False, T)
      else (True, T\<lparr>sitesAvailable := content\<rparr>))"
  by (simp add: execSync_def)

lemma execSync_ValidateAndReload:
  "execSync E F ValidateAndReload T =
     (if fails E ValidateAndReload then (False, T)
      else if nginxTest E (sitesAvailable T) \<and> reloadOk E
      then (True, T\<lparr>sitesEnabled := True, loadedConfig := sitesAvailable T\<rparr>)
      else (False, T\<lparr>sitesEnabled := True\<rparr>))"
  by (simp add: execSync_def Let_def)

lemma deploy_sync_fails:
  assumes "\<not> falsy domainArg" "fails E SyncFiles"
  shows "deployCommand E F domainArg email T0 = Inl \<lparr>trace = [SyncFiles], target = T0\<rparr>"
  using assms by (simp add: deployCommand_def run_fatal execSync_fails)

lemma deploy_after_certs:
  assumes "\<not> falsy domainArg" "\<not> fails E SyncFiles"
  shows "deployCommand E F domainArg email T0 =
    (case run E F FixPermissions False (afterCerts E F (orEmpty domainArg) (orEmpty email) T0) of
          Inl s \<Rightarrow> Inl s
        | Inr s6 \<Rightarrow>
        (case run E F (UploadConfig (tmpConfigPath E)
                         (nginxConfig (orEmpty domainArg) (allApps F) (dockerApps F))) False s6 of
          Inl s \<Rightarrow> Inl s
        | Inr s7 \<Rightarrow> run E F ValidateAndReload False s7))"
  using assms
  by (simp add: deployCommand_def Let_def startLoop_guard run_fatal [of E F SyncFiles]
      execSync_SyncFiles startLoop_trace run_allowFail execSync_StopOrphans certLoop_trace
      afterCerts_def)

lemma upt_3000: "[3000 ..< 3000 + length [a, b, c :: string]] = [3000, 3001, 3002]"
  by (simp add: upt_rec)

lemma deploy_no_domain:
  "falsy domainArg \<Longrightarrow> deployCommand E F domainArg email T0 = Inl \<lparr>trace = [], target = T0\<rparr>"
  by (simp add: deployCommand_def)

lemma deploy_trace:
  assumes "\<not> falsy domainArg" "\<not> fails E SyncFiles"
  shows "trace (finalState (deployCommand E F domainArg email T0)) =
     trace (afterCerts E F (orEmpty domainArg) (orEmpty email) T0) @
     FixPermissions #
     (if fails E FixPermissions then []
      else UploadConfig (tmpConfigPath E)
             (nginxConfig (orEmpty domainArg) (allApps F) (dockerApps F)) #
           (if fails E (UploadConfig (tmpConfigPath E)
                  (nginxConfig (orEmpty domainArg) (allApps F) (dockerApps F)))
            then [] else [ValidateAndReload]))"
  unfolding deploy_after_certs [OF assms]
  by (simp add: run_fatal execSync_FixPermissions execSync_UploadConfig
      execSync_ValidateAndReload finalState_def)

lemma deploy_target:
  assumes "\<not> falsy domainArg" "\<not> fails E SyncFiles"
    and "cfg = nginxConfig (orEmpty domainArg) (allApps F) (dockerApps F)"
    and "T5 = target (afterCerts E F (orEmpty domainArg) (orEmpty email) T0)"
  shows "target (finalState (deployCommand E F domainArg email T0)) =
     (if fails E FixPermissions \<or> fails E (UploadConfig (tmpConfigPath E) cfg) then T5
      else if fails E ValidateAndReload then T5\<lparr>sitesAvailable := cfg\<rparr>
      else if nginxTest E cfg \<and> reloadOk E
      then T5\<lparr>sitesAvailable := cfg, sitesEnabled := True, loadedConfig := cfg\<rparr>
      else T5\<lparr>sitesAvailable := cfg, sitesEnabled := True\<rparr>)"
  unfolding deploy_after_certs [OF assms(1,2)] assms(3,4)
  by (simp add: run_fatal execSync_FixPermissions execSync_UploadConfig
      execSync_ValidateAndReload finalState_def)

lemma deploy_isl:
  assumes "\<not> falsy domainArg" "\<not> fails E SyncFiles"
    and "cfg = nginxConfig (orEmpty domainArg) (allApps F) (dockerApps F)"
  shows "isl (deployCommand E F domainArg email T0) \<longleftrightarrow>
     fails E FixPermissions \<or> fails E (UploadConfig (tmpConfigPath E) cfg) \<or>
     fails E ValidateAndReload \<or> \<not> (nginxTest E cfg \<and> reloadOk E)"
  unfolding deploy_after_certs [OF assms(1,2)] assms(3)
  by (simp add: run_fatal execSync_FixPermissions execSync_UploadConfig
      execSync_ValidateAndReload)

lemma uploads_append: "uploads (xs @ ys) = uploads xs @ uploads ys"
  by (simp add: uploads_def)

lemma uploads_afterCerts: "uploads (trace (afterCerts E F domain emailArg T0)) = []"
  by (simp add: afterCerts_def uploads_def split_def)







lemma uploads_deploy:
  assumes "\<not> falsy domainArg" "\<not> fails E SyncFiles" "\<not> fails E FixPermissions"
  shows "uploads (trace (finalState (deployCommand E F domainArg email T0))) =
     [nginxConfig (orEmpty domainArg) (allApps F) (dockerApps F)]"
  by (simp add: deploy_trace [OF assms(1,2)] assms(3) uploads_append uploads_afterCerts)
     (simp add: uploads_def)

lemma uploads_deploy_subset:
  "set (uploads (trace (finalState (deployCommand E F domainArg email T0)))) \<subseteq>
     {nginxConfig (orEmpty domainArg) (allApps F) (dockerApps F)}"
proof (cases "falsy domainArg")
  case True
  then show ?thesis
    by (simp add: deploy_no_domain finalState_def uploads_def)
next
  case False
  show ?thesis
  proof (cases "fails E SyncFiles")
    case True
    with False show ?thesis
      by (simp add: deploy_sync_fails finalState_def uploads_def)
  next
    case sync: False
    show ?thesis
      by (simp add: deploy_trace [OF False sync] uploads_append uploads_afterCerts)
        (simp add: uploads_def)
  qed
qed

lemma afterCerts_no_validate:
  "ValidateAndReload \<notin> set (trace (afterCerts E F domain emailArg T0))"
  by (auto simp: afterCerts_def)

lemma afterCerts_target:
  "sitesAvailable (target (afterCerts E F domain emailArg T0)) = sitesAvailable T0"
  "loadedConfig (target (afterCerts E F domain emailArg T0)) = loadedConfig T0"
  "sitesEnabled (target (afterCerts E F domain emailArg T0)) = sitesEnabled T0"
  by (simp_all add: afterCerts_def)

lemma nginxConfig_not_previous: "nginxConfig domain apps dApps \<noteq> ''# previous''"
proof -
  have "take 3 (nginxConfig domain apps dApps) = ''# H''"
    by (simp add: nginxConfig_allocatePorts nginxHeader_def unlines_def)
  then show ?thesis by auto
qed









section \<open>Apps, blocks and lines\<close>




lemma unlines_Nil: "unlines [] = []"
  by (simp add: unlines_def)

lemma unlines_Cons: "unlines (l # ls) = l @ CHR 0x0A # unlines ls"
  by (simp add: unlines_def)

lemma unlines_append: "unlines (ks @ ls) = unlines ks @ unlines ls"
  by (simp add: unlines_def)

lemma nginxHeader_blocks: "nginxHeader domain = httpBlock domain @ rootBlock domain"
  unfolding nginxHeader_def httpBlock_def rootBlock_def unlines_append [symmetric]
  by simp



lemma linesFrom_no_newline:
  "CHR 0x0A \<notin> set xs \<Longrightarrow> linesFrom cur (xs @ ys) = linesFrom (cur @ xs) ys"
  by (induction xs arbitrary: cur) auto

lemma linesFrom_unlines:
  "\<forall>l \<in> set ls. CHR 0x0A \<notin> set l \<Longrightarrow> linesFrom [] (unlines ls @ rest) = ls @ linesFrom [] rest"
proof (induction ls)
  case Nil
  show ?case by (simp add: unlines_Nil)
next
  case (Cons l ls)
  then have "linesFrom [] (l @ CHR 0x0A # unlines ls @ rest) = l # linesFrom [] (unlines ls @ rest)"
    using linesFrom_no_newline [of l "[]" "CHR 0x0A # unlines ls @ rest"] by simp
  with Cons show ?case
    by (simp add: unlines_Cons)
qed

lemma countLine_unlines:
  "\<forall>l \<in> set ls. CHR 0x0A \<notin> set l \<Longrightarrow>
   countLine m (unlines ls @ rest) = count_list ls m + countLine m rest"
  by (simp add: countLine_def linesFrom_unlines)

lemma digitChar_not_newline: "d < 10 \<Longrightarrow> CHR 0x0A \<noteq> digitChar d"
proof
  assume a: "d < 10" and "CHR 0x0A = digitChar d"
  then have "(of_char (CHR 0x0A) :: nat) = of_char (digitChar d)" by simp
  with a show False
    by (simp add: digitChar_def)
qed

lemma numToString_no_newline: "CHR 0x0A \<notin> set (numToString n)"
proof (induction n rule: numToString.induct)
  case (1 n)
  show ?case
  proof (cases "n < 10")
    case True
    then show ?thesis
      by (simp add: numToString.simps [of n] digitChar_not_newline)
  next
    case False
    with 1 show ?thesis
      by (simp add: numToString.simps [of n] digitChar_not_newline)
  qed
qed

lemma countLine_Nil: "countLine m [] = 0"
  by (simp add: countLine_def)

lemma httpBlock_count:
  assumes "CHR 0x0A \<notin> set domain"
  shows "countLine ''server {'' (httpBlock domain @ rest) = 1 + countLine ''server {'' rest"
    and "countLine ''    listen 80;'' (httpBlock domain @ rest) = 1 + countLine ''    listen 80;'' rest"
    and "countLine ''    index index.html;'' (httpBlock domain @ rest) = countLine ''    index index.html;'' rest"
    and "countLine ''    location / {'' (httpBlock domain @ rest) = countLine ''    location / {'' rest"
    and "countLine ''    gzip on;'' (httpBlock domain @ rest) = countLine ''    gzip on;'' rest"
  unfolding httpBlock_def by (simp_all add: countLine_unlines assms)

lemma rootBlock_count:
  assumes "CHR 0x0A \<notin> set domain"
  shows "countLine ''server {'' (rootBlock domain @ rest) = 1 + countLine ''server {'' rest"
    and "countLine ''    listen 80;'' (rootBlock domain @ rest) = countLine ''    listen 80;'' rest"
    and "countLine ''    index index.html;'' (rootBlock domain @ rest) = 1 + countLine ''    index index.html;'' rest"
    and "countLine ''    location / {'' (rootBlock domain @ rest) = countLine ''    location / {'' rest"
    and "countLine ''    gzip on;'' (rootBlock domain @ rest) = countLine ''    gzip on;'' rest"
  unfolding rootBlock_def by (simp_all add: countLine_unlines assms)

lemma dockerBlock_count:
  assumes "CHR 0x0A \<notin> set app" "CHR 0x0A \<notin> set domain"
  shows "countLine ''server {'' (dockerBlock app domain port @ rest) = 1 + countLine ''server {'' rest"
    and "countLine ''    listen 80;'' (dockerBlock app domain port @ rest) = countLine ''    listen 80;'' rest"
    and "countLine ''    index index.html;'' (dockerBlock app domain port @ rest) = countLine ''    index index.html;'' rest"
    and "countLine ''    location / {'' (dockerBlock app domain port @ rest) = 1 + countLine ''    location / {'' rest"
    and "countLine ''    gzip on;'' (dockerBlock app domain port @ rest) = countLine ''    gzip on;'' rest"
  unfolding dockerBlock_def by (simp_all add: countLine_unlines assms numToString_no_newline)

lemma staticBlock_count:
  assumes "CHR 0x0A \<notin> set app" "CHR 0x0A \<notin> set domain"
  shows "countLine ''server {'' (staticBlock app domain @ rest) = 1 + countLine ''server {'' rest"
    and "countLine ''    listen 80;'' (staticBlock app domain @ rest) = countLine ''    listen 80;'' rest"
    and "countLine ''    index index.html;'' (staticBlock app domain @ rest) = countLine ''    index index.html;'' rest"
    and "countLine ''    location / {'' (staticBlock app domain @ rest) = countLine ''    location / {'' rest"
    and "countLine ''    gzip on;'' (staticBlock app domain @ rest) = 1 + countLine ''    gzip on;'' rest"
  unfolding staticBlock_def by (simp_all add: countLine_unlines assms)

lemma appBlocks_count:
  assumes "CHR 0x0A \<notin> set domain" "\<forall>app \<in> set apps. CHR 0x0A \<notin> set app"
  shows "countLine ''server {'' (concat (map (appBlock domain) (allocatePorts Q apps c))) = length apps"
    and "countLine ''    listen 80;'' (concat (map (appBlock domain) (allocatePorts Q apps c))) = 0"
    and "countLine ''    index index.html;'' (concat (map (appBlock domain) (allocatePorts Q apps c))) = 0"
    and "countLine ''    location / {'' (concat (map (appBlock domain) (allocatePorts Q apps c))) =
          length (filter Q apps)"
    and "countLine ''    gzip on;'' (concat (map (appBlock domain) (allocatePorts Q apps c))) =
          length (filter (\<lambda>app. \<not> Q app) apps)"
  using assms(2)
  by (induction apps arbitrary: c)
    (simp_all add: countLine_Nil dockerBlock_count staticBlock_count assms(1))

lemma document_line_counts:
  assumes "CHR 0x0A \<notin> set domain" "\<forall>app \<in> set apps. CHR 0x0A \<notin> set app"
  shows "countLine ''server {'' (nginxConfig domain apps dApps) = length apps + 2"
    and "countLine ''    listen 80;'' (nginxConfig domain apps dApps) = 1"
    and "countLine ''    index index.html;'' (nginxConfig domain apps dApps) = 1"
    and "countLine ''    location / {'' (nginxConfig domain apps dApps) =
          length (filter (\<lambda>app. app \<in> set dApps) apps)"
    and "countLine ''    gzip on;'' (nginxConfig domain apps dApps) =
          length (filter (\<lambda>app. app \<notin> set dApps) apps)"
  by (simp_all add: nginxConfig_allocatePorts nginxHeader_blocks httpBlock_count rootBlock_count
      appBlocks_count assms)

section \<open>The claims\<close>

text \<open>
  C1, as the claim states it, fails: the rendered document is copied over
  \<^verbatim>\<open>/etc/nginx/sites-available/apps\<close> before \<^verbatim>\<open>nginx -t\<close> runs, so a run whose
  validation fails leaves the file with the new document, not with its previous bytes.
\<close>

theorem validation_failure_overwrites_file:
  "\<not> nginxTest invalidConfigEnv
       (nginxConfig ''example.com'' (allApps exampleRepo) (dockerApps exampleRepo))
   \<and> ValidateAndReload \<in> set (trace (finalState
         (deployCommand invalidConfigEnv exampleRepo (Some ''example.com'') None freshTarget)))
   \<and> sitesAvailable (target (finalState
         (deployCommand invalidConfigEnv exampleRepo (Some ''example.com'') None freshTarget))) \<noteq>
       sitesAvailable freshTarget"
proof -
  have a: "\<not> falsy (Some ''example.com'')"
    by (simp add: falsy_def)
  have b: "\<not> fails invalidConfigEnv cmd" "\<not> nginxTest invalidConfigEnv content" for cmd content
    by (simp_all add: invalidConfigEnv_def calmEnv_def)
  have c: "sitesAvailable freshTarget = ''# previous''"
    by (simp add: freshTarget_def)
  show ?thesis
    by (simp add: deploy_trace [OF a b(1)] deploy_target [OF a b(1) refl refl] b
        afterCerts_target c nginxConfig_not_previous orEmpty_def)
qed

text \<open>
  C1, amended. nginx is reloaded only after \<^verbatim>\<open>nginx -t\<close> passed on the uploaded document:
  a run either leaves the loaded configuration as it was, or it ran to the end, the
  validation passed and the loaded configuration is the rendered document. For every
  run that reaches the validation and in which it fails, the pipeline exits before the
  reload and nginx keeps the configuration it had loaded, while the configuration file
  already holds the newly rendered document and, when the command got through to the
  target, the enabling link is already made.
\<close>

theorem validation_gates_reload:
  assumes "r = deployCommand E F domainArg email T0"
    and "cfg = nginxConfig (orEmpty domainArg) (allApps F) (dockerApps F)"
  shows "(loadedConfig (target (finalState r)) = loadedConfig T0
          \<or> (\<not> isl r \<and> nginxTest E cfg \<and> loadedConfig (target (finalState r)) = cfg))
     \<and> (ValidateAndReload \<in> set (trace (finalState r)) \<and> \<not> nginxTest E cfg \<longrightarrow>
          isl r \<and> loadedConfig (target (finalState r)) = loadedConfig T0
          \<and> sitesAvailable (target (finalState r)) = cfg
          \<and> (fails E ValidateAndReload \<or> sitesEnabled (target (finalState r))))"
proof (cases "falsy domainArg")
  case True
  then show ?thesis
    by (simp add: assms(1) deploy_no_domain finalState_def)
next
  case False
  show ?thesis
  proof (cases "fails E SyncFiles")
    case True
    with False show ?thesis
      by (simp add: assms(1) deploy_sync_fails finalState_def)
  next
    case sync: False
    show ?thesis
      unfolding assms(1)
      by (simp add: deploy_trace [OF False sync] deploy_target [OF False sync assms(2) refl]
          deploy_isl [OF False sync assms(2)] afterCerts_target afterCerts_no_validate
          assms(2))
  qed
qed

theorem validation_gates_reload_witness:
  "isl (deployCommand invalidConfigEnv exampleRepo (Some ''example.com'') None
          (freshTarget\<lparr>sitesEnabled := False\<rparr>))
   \<and> loadedConfig (target (finalState
         (deployCommand invalidConfigEnv exampleRepo (Some ''example.com'') None
            (freshTarget\<lparr>sitesEnabled := False\<rparr>)))) =
       ''# previous''
   \<and> sitesAvailable (target (finalState
         (deployCommand invalidConfigEnv exampleRepo (Some ''example.com'') None
            (freshTarget\<lparr>sitesEnabled := False\<rparr>)))) =
       nginxConfig ''example.com'' [''abc'', ''blog'', ''myapi'', ''xyz'']
         [''abc'', ''myapi'', ''xyz'']
   \<and> sitesEnabled (target (finalState
         (deployCommand invalidConfigEnv exampleRepo (Some ''example.com'') None
            (freshTarget\<lparr>sitesEnabled := False\<rparr>))))"
proof -
  have a: "\<not> falsy (Some ''example.com'')"
    by (simp add: falsy_def)
  have b: "\<not> fails invalidConfigEnv cmd" "\<not> nginxTest invalidConfigEnv content" for cmd content
    by (simp_all add: invalidConfigEnv_def calmEnv_def)
  have c: "ValidateAndReload \<in> set (trace (finalState
         (deployCommand invalidConfigEnv exampleRepo (Some ''example.com'') None
            (freshTarget\<lparr>sitesEnabled := False\<rparr>))))"
    by (simp add: deploy_trace [OF a b(1)] b)
  from validation_gates_reload [OF refl refl, of invalidConfigEnv exampleRepo
      "Some ''example.com''" None "freshTarget\<lparr>sitesEnabled := False\<rparr>"] c b
  show ?thesis
    by (simp add: orEmpty_def allApps_exampleRepo dockerApps_exampleRepo freshTarget_def)
qed

text \<open>
  C2. The port allocator walks the list once with a counter starting at 3000, assigns
  the counter to each containerized app and then increments it, and a static app takes
  no port and leaves the counter unchanged. The configuration loop of step 7 renders
  exactly the blocks of that walk, and the start loop of step 3 numbers the
  containerized apps from 3000 in their order. For the apps abc (containerized), blog
  (static), myapi and xyz (containerized) the ports are abc = 3000, myapi = 3001,
  xyz = 3002, and blog has none.
\<close>

theorem port_allocator_walk:
  "nginxConfig domain apps dApps =
     nginxHeader domain @
     concat (map (appBlock domain) (allocatePorts (\<lambda>app. app \<in> set dApps) apps 3000))
   \<and> startLoop E F dApps 3000 s =
     Inr (s\<lparr>trace := trace s @
            map (\<lambda>(app, p). DockerUp app p) (zip dApps [3000 ..< 3000 + length dApps])\<rparr>)
   \<and> nginxConfig domain (allApps exampleRepo) (dockerApps exampleRepo) =
     nginxHeader domain @ dockerBlock ''abc'' domain 3000 @ staticBlock ''blog'' domain @
     dockerBlock ''myapi'' domain 3001 @ dockerBlock ''xyz'' domain 3002
   \<and> startLoop E F (dockerApps exampleRepo) 3000 s =
     Inr (s\<lparr>trace := trace s @
            [DockerUp ''abc'' 3000, DockerUp ''myapi'' 3001, DockerUp ''xyz'' 3002]\<rparr>)
   \<and> allocatePorts (\<lambda>app. app \<in> set (dockerApps exampleRepo)) (allApps exampleRepo) 3000 =
     [(''abc'', Some 3000), (''blog'', None), (''myapi'', Some 3001), (''xyz'', Some 3002)]"
proof (intro conjI)
  show "nginxConfig domain apps dApps =
     nginxHeader domain @
     concat (map (appBlock domain) (allocatePorts (\<lambda>app. app \<in> set dApps) apps 3000))"
    by (rule nginxConfig_allocatePorts)
  show "startLoop E F dApps 3000 s =
     Inr (s\<lparr>trace := trace s @
            map (\<lambda>(app, p). DockerUp app p) (zip dApps [3000 ..< 3000 + length dApps])\<rparr>)"
    by (rule startLoop_trace)
  show "nginxConfig domain (allApps exampleRepo) (dockerApps exampleRepo) =
     nginxHeader domain @ dockerBlock ''abc'' domain 3000 @ staticBlock ''blog'' domain @
     dockerBlock ''myapi'' domain 3001 @ dockerBlock ''xyz'' domain 3002"
    by (simp add: allApps_exampleRepo dockerApps_exampleRepo nginxConfig_def)
  show "startLoop E F (dockerApps exampleRepo) 3000 s =
     Inr (s\<lparr>trace := trace s @
            [DockerUp ''abc'' 3000, DockerUp ''myapi'' 3001, DockerUp ''xyz'' 3002]\<rparr>)"
    by (simp add: dockerApps_exampleRepo run_allowFail execSync_DockerUp)
  show "allocatePorts (\<lambda>app. app \<in> set (dockerApps exampleRepo)) (allApps exampleRepo) 3000 =
     [(''abc'', Some 3000), (''blog'', None), (''myapi'', Some 3001), (''xyz'', Some 3002)]"
    by (simp add: allApps_exampleRepo dockerApps_exampleRepo)
qed







text \<open>
  C5. A failure in an intermediate step (starting containers, stopping orphans, issuing
  certificates, fixing permissions) does not abort the pipeline. The code does this for
  steps 3, 4 and 5, which pass \<^verbatim>\<open>allowFail\<close> (lemma \<open>deploy_isl\<close>: what ends a run early
  is a failure of the sync, of step 6, of the upload or of the last command). It does
  not for step 6: \<^verbatim>\<open>runSSH\<close> is called there without \<^verbatim>\<open>allowFail\<close>, so when the command
  of step 6 fails (every line of its script ends in \<^verbatim>\<open>|| true\<close>, so this is a transport
  failure) the run exits with status 1 after \<open>FixPermissions\<close>: nothing is rendered,
  uploaded or reloaded.
\<close>

theorem fix_permissions_failure_exits:
  "deployCommand permissionsFailEnv exampleRepo (Some ''example.com'') None freshTarget =
     Inl \<lparr>trace = [SyncFiles, DockerUp ''abc'' 3000, DockerUp ''myapi'' 3001,
             DockerUp ''xyz'' 3002, StopOrphans,
             EnsureCert ''abc'' ''example.com'' [], EnsureCert ''blog'' ''example.com'' [],
             EnsureCert ''myapi'' ''example.com'' [], EnsureCert ''xyz'' ''example.com'' [],
             FixPermissions],
          target = freshTarget\<lparr>appDirs := syncedDirs exampleRepo {}\<rparr>\<rparr>"
proof -
  have a: "\<not> falsy (Some ''example.com'')"
    by (simp add: falsy_def)
  have b: "\<not> fails permissionsFailEnv SyncFiles"
    by (simp add: permissionsFailEnv_def)
  have c: "fails permissionsFailEnv FixPermissions" "\<not> fails permissionsFailEnv StopOrphans"
    "runningProjects permissionsFailEnv = []"
    by (simp_all add: permissionsFailEnv_def calmEnv_def)
  show ?thesis
    unfolding deploy_after_certs [OF a b]
    by (simp add: run_fatal execSync_FixPermissions c afterCerts_def allApps_exampleRepo
        dockerApps_exampleRepo upt_3000 orEmpty_def orphans_def freshTarget_def)
qed

text \<open>
  C6. The routing document is a function of the topology and the root domain alone: two
  runs on the same apps, the same containerized apps and the same domain upload the
  same bytes, whatever the clock, the failures, the e-mail address and the target are.
\<close>

theorem config_depends_on_topology_only:
  assumes "allApps F1 = allApps F2" and "dockerApps F1 = dockerApps F2"
    and "doc1 \<in> set (uploads (trace (finalState (deployCommand E1 F1 domainArg email1 T1))))"
    and "doc2 \<in> set (uploads (trace (finalState (deployCommand E2 F2 domainArg email2 T2))))"
  shows "doc1 = doc2"
  using assms uploads_deploy_subset [of E1 F1 domainArg email1 T1]
    uploads_deploy_subset [of E2 F2 domainArg email2 T2]
  by auto

theorem config_depends_on_topology_only_witness:
  "hd (uploads (trace (finalState
         (deployCommand calmEnv exampleRepo (Some ''example.com'') None freshTarget)))) =
   hd (uploads (trace (finalState
         (deployCommand certFailEnv exampleRepo (Some ''example.com'') None
            (freshTarget\<lparr>sitesEnabled := False\<rparr>)))))"
proof -
  have a: "\<not> falsy (Some ''example.com'')"
    by (simp add: falsy_def)
  have b: "\<not> fails calmEnv SyncFiles" "\<not> fails calmEnv FixPermissions"
    "\<not> fails certFailEnv SyncFiles" "\<not> fails certFailEnv FixPermissions"
    by (simp_all add: calmEnv_def certFailEnv_def)
  have c: "hd (uploads (trace (finalState
         (deployCommand calmEnv exampleRepo (Some ''example.com'') None freshTarget)))) \<in>
      set (uploads (trace (finalState
         (deployCommand calmEnv exampleRepo (Some ''example.com'') None freshTarget))))"
    by (simp add: uploads_deploy [OF a b(1,2)])
  have d: "hd (uploads (trace (finalState
         (deployCommand certFailEnv exampleRepo (Some ''example.com'') None
            (freshTarget\<lparr>sitesEnabled := False\<rparr>))))) \<in>
      set (uploads (trace (finalState
         (deployCommand certFailEnv exampleRepo (Some ''example.com'') None
            (freshTarget\<lparr>sitesEnabled := False\<rparr>)))))"
    by (simp add: uploads_deploy [OF a b(3,4)])
  show ?thesis
    by (rule config_depends_on_topology_only [OF refl refl c d])
qed

text \<open>
  C7. In every run in which only certificate issuances fail (one of them, or several),
  every issuance is still called, in the order of the apps; the pipeline goes on through
  the permissions step to the upload of the rendered document and to the validation and
  reload command; and the document is the one rendered from the apps alone, with the
  block of every app.
\<close>

theorem cert_failure_continues:
  assumes "\<not> falsy domainArg"
    and "\<forall>cmd. fails E cmd \<longrightarrow> (\<exists>app domain emailArg. cmd = EnsureCert app domain emailArg)"
  shows "trace (finalState (deployCommand E F domainArg email T0)) =
       [SyncFiles] @
       map (\<lambda>(app, p). DockerUp app p)
         (zip (dockerApps F) [3000 ..< 3000 + length (dockerApps F)]) @
       [StopOrphans] @
       map (\<lambda>app. EnsureCert app (orEmpty domainArg) (orEmpty email)) (allApps F) @
       [FixPermissions,
        UploadConfig (tmpConfigPath E) (nginxConfig (orEmpty domainArg) (allApps F) (dockerApps F)),
        ValidateAndReload]
     \<and> nginxConfig (orEmpty domainArg) (allApps F) (dockerApps F) =
       nginxHeader (orEmpty domainArg) @
       concat (map (appBlock (orEmpty domainArg))
         (allocatePorts (\<lambda>app. app \<in> set (dockerApps F)) (allApps F) 3000))"
proof -
  have ok: "\<not> fails E SyncFiles" "\<not> fails E FixPermissions" "\<not> fails E ValidateAndReload"
    "\<not> fails E (UploadConfig path content)" for path content
    using assms(2) by auto
  have "trace (finalState (deployCommand E F domainArg email T0)) =
       trace (afterCerts E F (orEmpty domainArg) (orEmpty email) T0) @
       [FixPermissions,
        UploadConfig (tmpConfigPath E) (nginxConfig (orEmpty domainArg) (allApps F) (dockerApps F)),
        ValidateAndReload]"
    unfolding deploy_after_certs [OF assms(1) ok(1)]
    by (simp add: run_fatal execSync_FixPermissions execSync_UploadConfig
        execSync_ValidateAndReload ok finalState_def)
  then show ?thesis
    by (simp add: afterCerts_def nginxConfig_allocatePorts)
qed

theorem cert_failure_continues_witness:
  "fails certFailEnv (EnsureCert ''blog'' ''example.com'' [])
   \<and> trace (finalState (deployCommand certFailEnv exampleRepo (Some ''example.com'') None freshTarget)) =
       [SyncFiles, DockerUp ''abc'' 3000, DockerUp ''myapi'' 3001,
             DockerUp ''xyz'' 3002, StopOrphans,
             EnsureCert ''abc'' ''example.com'' [], EnsureCert ''blog'' ''example.com'' [],
             EnsureCert ''myapi'' ''example.com'' [], EnsureCert ''xyz'' ''example.com'' [],
             FixPermissions,
             UploadConfig (tmpConfigPath certFailEnv)
               (nginxConfig ''example.com'' [''abc'', ''blog'', ''myapi'', ''xyz''] [''abc'', ''myapi'', ''xyz'']),
             ValidateAndReload]"
proof -
  have a: "\<not> falsy (Some ''example.com'')"
    by (simp add: falsy_def)
  have b: "\<forall>cmd. fails certFailEnv cmd \<longrightarrow>
      (\<exists>app domain emailArg. cmd = EnsureCert app domain emailArg)"
    by (simp add: certFailEnv_def)
  have c: "fails certFailEnv (EnsureCert ''blog'' ''example.com'' [])"
    by (simp add: certFailEnv_def)
  from cert_failure_continues [OF a b, of exampleRepo None freshTarget] c
  show ?thesis
    by (simp add: allApps_exampleRepo dockerApps_exampleRepo upt_3000 orEmpty_def)
qed





end
